theory Spec2Isabelle
  imports Complex_Main "HOL-Library.Sublist" "HOL-Library.Multiset"
begin

section \<open>Data model\<close>

text \<open>
  An event is a two-column numeric table: one row per sample, column 0 the time and
  column 1 the current. The source holds it as a numpy array and reads
  \<^verbatim>\<open>event[i, 1]\<close> for the current of row \<open>i\<close>. Samples are modelled over the
  reals: the arithmetic of the source (differences, products, comparisons, means) is
  read as exact arithmetic, and an input table holds no NaN.
\<close>

type_synonym sample = "real \<times> real"
type_synonym event = "sample list"

text \<open>The exceptions the modelled code can raise. \<open>ValueError\<close> carries its message.\<close>

datatype error = IndexError | ValueError string | ZeroDivisionError

section \<open>find\_extrema\<close>

text \<open>
  One iteration of the loop \<^verbatim>\<open>for i in range(1, len(event)-1)\<close>. The index \<open>i\<close>
  is an interior index, so \<open>i - 1\<close> and \<open>i + 1\<close> are in range, and \<open>extrema\<close> is
  never empty (it starts as \<^verbatim>\<open>[event[0]]\<close>), so \<^verbatim>\<open>extrema[-1]\<close> is its last row.
\<close>

definition extrema_step :: "event \<Rightarrow> real \<Rightarrow> sample list \<Rightarrow> nat \<Rightarrow> sample list" where
  "extrema_step event extrema_th extrema i =
     (let this_current = snd (event ! i);
          prev_current = snd (event ! (i - 1));
          next_current = snd (event ! (i + 1));
          prev_change = this_current - prev_current;
          next_change = this_current - next_current
      in if prev_change * next_change \<ge> 0
         then (let extrema_change = \<bar>this_current - snd (last extrema)\<bar>
               in if extrema_change > extrema_th then extrema @ [event ! i] else extrema)
         else extrema)"

text \<open>
  \<^verbatim>\<open>event[0]\<close> on an empty table raises IndexError. Otherwise the loop runs over the
  interior indices and the last row is appended unconditionally.
\<close>

definition find_extrema :: "event \<Rightarrow> real \<Rightarrow> error + sample list" where
  "find_extrema event extrema_th =
     (if event = [] then Inl IndexError
      else Inr (foldl (extrema_step event extrema_th) [event ! 0] [1 ..< length event - 1]
                @ [last event]))"

text \<open>The state of the loop after the indices \<open>1 ..< k\<close>.\<close>

definition extrema_upto :: "event \<Rightarrow> real \<Rightarrow> nat \<Rightarrow> sample list" where
  "extrema_upto event extrema_th k = foldl (extrema_step event extrema_th) [event ! 0] [1 ..< k]"

section \<open>Numeric primitives\<close>

text \<open>
  A computed feature is a float. The only non-finite value the modelled code can produce
  from a finite table is the NaN that \<^verbatim>\<open>np.mean\<close> and \<^verbatim>\<open>np.std\<close> return on an
  empty array (with a warning, without raising), so a float is \<open>NaN\<close> or a real number.
\<close>

datatype npfloat = NaN | Num real

definition np_mean :: "real list \<Rightarrow> npfloat" where
  "np_mean xs = (if xs = [] then NaN else Num (sum_list xs / real (length xs)))"

text \<open>The population standard deviation (numpy's default, \<^verbatim>\<open>ddof=0\<close>).\<close>

definition np_std :: "real list \<Rightarrow> npfloat" where
  "np_std xs =
     (if xs = [] then NaN
      else (let m = sum_list xs / real (length xs)
            in Num (sqrt (sum_list (map (\<lambda>x. (x - m)\<^sup>2) xs) / real (length xs)))))"

text \<open>\<^verbatim>\<open>np.max\<close> and \<^verbatim>\<open>np.min\<close> raise ValueError on an empty array.\<close>

definition np_max :: "real list \<Rightarrow> error + real" where
  "np_max xs =
     (if xs = []
      then Inl (ValueError ''zero-size array to reduction operation maximum which has no identity'')
      else Inr (fold max (tl xs) (hd xs)))"

definition np_min :: "real list \<Rightarrow> error + real" where
  "np_min xs =
     (if xs = []
      then Inl (ValueError ''zero-size array to reduction operation minimum which has no identity'')
      else Inr (fold min (tl xs) (hd xs)))"

text \<open>
  Indexing an array with an array of indices, \<^verbatim>\<open>a[idx]\<close>: the rows at these indices, in
  the order of the indices; IndexError when an index is out of bounds.
\<close>

definition np_take :: "'a list \<Rightarrow> nat list \<Rightarrow> error + 'a list" where
  "np_take a idx = (if \<forall>i \<in> set idx. i < length a then Inr (map ((!) a) idx) else Inl IndexError)"

text \<open>
  A slice \<^verbatim>\<open>a[start:stop]\<close> with integer bounds, as Python computes it: a negative
  bound counts from the end, and both bounds are clamped to \<open>0 .. len(a)\<close>.
\<close>

definition py_slice :: "'a list \<Rightarrow> int \<Rightarrow> int \<Rightarrow> 'a list" where
  "py_slice a start stop =
     (let n = int (length a);
          lo = (if start < 0 then max 0 (start + n) else min start n);
          hi = (if stop < 0 then max 0 (stop + n) else min stop n)
      in take (nat (hi - lo)) (drop (nat lo) a))"

text \<open>An exception raised in the first computation leaves the rest undone.\<close>

definition bind_err :: "error + 'a \<Rightarrow> ('a \<Rightarrow> error + 'b) \<Rightarrow> error + 'b" where
  "bind_err r f = (case r of Inl e \<Rightarrow> Inl e | Inr x \<Rightarrow> f x)"

section \<open>build\_features\<close>

text \<open>
  The feature dictionary has a fixed set of seventeen keys, inserted in this order.
\<close>

record features =
  num_signals :: npfloat
  duration :: npfloat
  max_current :: npfloat
  min_current :: npfloat
  mean_current :: npfloat
  std_current :: npfloat
  num_extrema :: npfloat
  mean_extrema :: npfloat
  std_extrema :: npfloat
  mean_extrema_diff :: npfloat
  num_peaks :: npfloat
  mean_peaks :: npfloat
  peak_1 :: npfloat
  peak_2 :: npfloat
  peak_3 :: npfloat
  peak_4 :: npfloat
  peak_5 :: npfloat

definition zero_features :: features where
  "zero_features =
     \<lparr>num_signals = Num 0, duration = Num 0, max_current = Num 0, min_current = Num 0,
      mean_current = Num 0, std_current = Num 0, num_extrema = Num 0, mean_extrema = Num 0,
      std_extrema = Num 0, mean_extrema_diff = Num 0, num_peaks = Num 0, mean_peaks = Num 0,
      peak_1 = Num 0, peak_2 = Num 0, peak_3 = Num 0, peak_4 = Num 0, peak_5 = Num 0\<rparr>"

text \<open>\<^verbatim>\<open>list(features.values())\<close>: the values in insertion order.\<close>

definition features_values :: "features \<Rightarrow> npfloat list" where
  "features_values f =
     [num_signals f, duration f, max_current f, min_current f, mean_current f, std_current f,
      num_extrema f, mean_extrema f, std_extrema f, mean_extrema_diff f, num_peaks f,
      mean_peaks f, peak_1 f, peak_2 f, peak_3 f, peak_4 f, peak_5 f]"

text \<open>
  \<^verbatim>\<open>np.mean(extrema)\<close> and \<^verbatim>\<open>np.std(extrema)\<close> reduce over the whole two-column
  array, that is over its entries in row-major order.
\<close>

definition flatten :: "sample list \<Rightarrow> real list" where
  "flatten rows = concat (map (\<lambda>(t, c). [t, c]) rows)"

text \<open>
  \<^verbatim>\<open>np.abs([extrema[i, 1] - extrema[i-1, 1] for i in range(1, len(extrema))])\<close>
\<close>

definition extrema_diffs :: "sample list \<Rightarrow> real list" where
  "extrema_diffs extrema =
     map (\<lambda>i. \<bar>snd (extrema ! i) - snd (extrema ! (i - 1))\<bar>) [1 ..< length extrema]"

text \<open>\<^verbatim>\<open>sorted(xs, reverse=True)\<close>\<close>

definition sorted_reverse :: "real list \<Rightarrow> real list" where
  "sorted_reverse xs = rev (sort xs)"

text \<open>\<^verbatim>\<open>peaks[k] if len(peaks) > k else 0\<close>\<close>

definition peak_or_zero :: "real list \<Rightarrow> nat \<Rightarrow> npfloat" where
  "peak_or_zero peaks k = (if length peaks > k then Num (peaks ! k) else Num 0)"

text \<open>
  The peak detector \<^verbatim>\<open>scipy.signal.find_peaks_cwt\<close> is an external collaborator: it
  takes the signal and the width and returns indices. It is a parameter of the model.
\<close>

type_synonym detector = "real list \<Rightarrow> real \<Rightarrow> nat list"

text \<open>The branch \<^verbatim>\<open>if len(peaks_idx) > 0\<close> of \<^verbatim>\<open>build_features\<close>.\<close>

definition peak_features :: "event \<Rightarrow> nat list \<Rightarrow> features \<Rightarrow> error + features" where
  "peak_features event peaks_idx f =
     (if length peaks_idx > 0
      then bind_err (np_take event peaks_idx) (\<lambda>rows.
             let peaks = sorted_reverse (map snd rows)
             in Inr (f\<lparr>mean_peaks := np_mean peaks,
                      peak_1 := peak_or_zero peaks 0,
                      peak_2 := peak_or_zero peaks 1,
                      peak_3 := peak_or_zero peaks 2,
                      peak_4 := peak_or_zero peaks 3,
                      peak_5 := peak_or_zero peaks 4\<rparr>))
      else Inr f)"

definition build_features :: "detector \<Rightarrow> event \<Rightarrow> real \<Rightarrow> error + features" where
  "build_features detect event extrema_th =
     (if length event > 0
      then bind_err (np_max (map snd event)) (\<lambda>mx.
           bind_err (np_min (map snd event)) (\<lambda>mn.
           bind_err (find_extrema event extrema_th) (\<lambda>extrema.
             let peaks_idx = detect (map snd event) (max 1 (fst (last event)))
             in peak_features event peaks_idx
                  (zero_features
                     \<lparr>num_signals := Num (real (length event)),
                      duration := Num (fst (last event)),
                      max_current := Num mx,
                      min_current := Num mn,
                      mean_current := np_mean (map snd event),
                      std_current := np_std (map snd event),
                      num_extrema := Num (real (length extrema)),
                      mean_extrema := np_mean (flatten extrema),
                      std_extrema := np_std (flatten extrema),
                      mean_extrema_diff := np_mean (extrema_diffs extrema),
                      num_peaks := Num (real (length peaks_idx))\<rparr>))))
      else Inr zero_features)"

section \<open>PolymerDataset.\_process\_event\<close>

text \<open>
  A parameter that may be left out is \<^verbatim>\<open>None\<close> or an integer. Python's \<^verbatim>\<open>not x\<close> and
  \<^verbatim>\<open>x or y\<close> treat both \<^verbatim>\<open>None\<close> and \<open>0\<close> as false.
\<close>

definition truthy :: "int option \<Rightarrow> bool" where
  "truthy v = (case v of None \<Rightarrow> False | Some n \<Rightarrow> n \<noteq> 0)"

text \<open>
  \<^verbatim>\<open>int(np.ceil(a / b))\<close> for integers \<open>a\<close> and \<open>b \<noteq> 0\<close>, read as the exact ceiling of
  the quotient (the float quotient of two integers below \<open>2^53\<close> never rounds across an
  integer).
\<close>

definition ceil_div :: "int \<Rightarrow> int \<Rightarrow> int" where
  "ceil_div a b = \<lceil>real_of_int a / real_of_int b\<rceil>"

text \<open>
  \<^verbatim>\<open>stepsize = stepsize or int(np.ceil(len(event) / timesteps))\<close>: the quotient of two
  Python integers raises ZeroDivisionError when \<open>timesteps\<close> is \<open>0\<close>.
\<close>

definition resolve_stepsize :: "event \<Rightarrow> int \<Rightarrow> int option \<Rightarrow> error + int" where
  "resolve_stepsize event timesteps stepsize =
     (if truthy stepsize then Inr (the stepsize)
      else if timesteps = 0 then Inl ZeroDivisionError
      else Inr (ceil_div (int (length event)) timesteps))"

text \<open>
  The loop \<^verbatim>\<open>for i in range(timesteps)\<close>, over the remaining indices, with the rows
  collected so far.
\<close>

fun process_loop ::
  "detector \<Rightarrow> event \<Rightarrow> int \<Rightarrow> real \<Rightarrow> nat list \<Rightarrow> npfloat list list \<Rightarrow> error + npfloat list list"
where
  "process_loop detect event stepsize extrema_th [] compressed_event = Inr compressed_event"
| "process_loop detect event stepsize extrema_th (i # rest) compressed_event =
     (let sub_event = py_slice event (int i * stepsize) ((int i + 1) * stepsize)
      in bind_err (build_features detect sub_event extrema_th) (\<lambda>features.
           process_loop detect event stepsize extrema_th rest
             (compressed_event @ [features_values features])))"

definition process_event ::
  "detector \<Rightarrow> event \<Rightarrow> int \<Rightarrow> int option \<Rightarrow> real \<Rightarrow> error + npfloat list list"
where
  "process_event detect event timesteps stepsize extrema_th =
     bind_err (resolve_stepsize event timesteps stepsize) (\<lambda>stepsize'.
       process_loop detect event stepsize' extrema_th [0 ..< nat timesteps] [])"

section \<open>PolymerDataset.preprocess\<close>

record dataset =
  data :: "npfloat list list list"
  labels :: "nat list"

text \<open>
  The seeded generator is an external collaborator: \<open>permutation seed k n\<close> is what the
  \<open>k\<close>-th call \<^verbatim>\<open>np.random.permutation(n)\<close> returns after \<^verbatim>\<open>np.random.seed(seed)\<close>.
\<close>

type_synonym generator = "int \<Rightarrow> nat \<Rightarrow> nat \<Rightarrow> nat list"

text \<open>\<^verbatim>\<open>min([len(d) for d in self.raw_data])\<close>: ValueError on an empty list.\<close>

definition py_min :: "nat list \<Rightarrow> error + nat" where
  "py_min xs =
     (if xs = [] then Inl (ValueError ''min() arg is an empty sequence'')
      else Inr (fold min (tl xs) (hd xs)))"

text \<open>\<^verbatim>\<open>np.max\<close> of a list of lengths: ValueError on an empty list.\<close>

definition np_max_len :: "nat list \<Rightarrow> error + nat" where
  "np_max_len xs =
     (if xs = []
      then Inl (ValueError ''zero-size array to reduction operation maximum which has no identity'')
      else Inr (fold max (tl xs) (hd xs)))"

text \<open>The balancing loop over the classes; \<open>k\<close> counts the calls of the generator.\<close>

fun balance_loop ::
  "generator \<Rightarrow> int \<Rightarrow> nat \<Rightarrow> nat \<Rightarrow> event list list \<Rightarrow> error + event list list"
where
  "balance_loop permutation seed min_data_size k [] = Inr []"
| "balance_loop permutation seed min_data_size k (r_data # rest) =
     (let indices = permutation seed k (length r_data)
      in bind_err (np_take r_data (take min_data_size indices)) (\<lambda>b_data.
         bind_err (balance_loop permutation seed min_data_size (Suc k) rest) (\<lambda>balanced.
           Inr (b_data # balanced))))"

definition min_event_len :: nat where
  "min_event_len = 50"

definition max_event_len :: nat where
  "max_event_len = 10000"

text \<open>The filter loop \<^verbatim>\<open>for event in b_data\<close>, with the events kept so far.\<close>

fun normal_events_loop :: "event list \<Rightarrow> event list \<Rightarrow> event list" where
  "normal_events_loop [] normal_events = normal_events"
| "normal_events_loop (event # rest) normal_events =
     (if length event > min_event_len \<and> length event < max_event_len
      then normal_events_loop rest (normal_events @ [event])
      else normal_events_loop rest normal_events)"

definition remove_short_long :: "event list list \<Rightarrow> event list list" where
  "remove_short_long balanced_data = map (\<lambda>b_data. normal_events_loop b_data []) balanced_data"

text \<open>
  \<^verbatim>\<open>timesteps = timesteps or int(np.ceil(max_event_len / stepsize))\<close>. It is reached only
  when one of the two is true, so the divisor is not \<open>0\<close>.
\<close>

definition resolve_timesteps :: "int option \<Rightarrow> int option \<Rightarrow> nat \<Rightarrow> int" where
  "resolve_timesteps timesteps stepsize longest =
     (if truthy timesteps then the timesteps else ceil_div (int longest) (the stepsize))"

text \<open>The inner loop over the events of one class, with the result collected so far.\<close>

fun events_loop ::
  "detector \<Rightarrow> int \<Rightarrow> int option \<Rightarrow> real \<Rightarrow> nat \<Rightarrow> event list \<Rightarrow> dataset \<Rightarrow> error + dataset"
where
  "events_loop detect timesteps stepsize extrema_th data_index [] d = Inr d"
| "events_loop detect timesteps stepsize extrema_th data_index (event # rest) d =
     bind_err (process_event detect event timesteps stepsize extrema_th) (\<lambda>processed_event.
       events_loop detect timesteps stepsize extrema_th data_index rest
         (d\<lparr>data := data d @ [processed_event], labels := labels d @ [data_index]\<rparr>))"

text \<open>The outer loop \<^verbatim>\<open>for data_index, raw_data in enumerate(normal_data)\<close>.\<close>

fun classes_loop ::
  "detector \<Rightarrow> int \<Rightarrow> int option \<Rightarrow> real \<Rightarrow> nat \<Rightarrow> event list list \<Rightarrow> dataset \<Rightarrow> error + dataset"
where
  "classes_loop detect timesteps stepsize extrema_th data_index [] d = Inr d"
| "classes_loop detect timesteps stepsize extrema_th data_index (raw_data # rest) d =
     bind_err (events_loop detect timesteps stepsize extrema_th data_index raw_data d) (\<lambda>d'.
       classes_loop detect timesteps stepsize extrema_th (Suc data_index) rest d')"

definition preprocess ::
  "detector \<Rightarrow> generator \<Rightarrow> event list list \<Rightarrow> int option \<Rightarrow> int option \<Rightarrow> real \<Rightarrow> int
   \<Rightarrow> error + dataset"
where
  "preprocess detect permutation raw_data timesteps stepsize extrema_th seed =
     (if \<not> truthy timesteps \<and> \<not> truthy stepsize
      then Inl (ValueError ''Either timesteps or stepsize should be specified'')
      else bind_err (py_min (map length raw_data)) (\<lambda>min_data_size.
           bind_err (balance_loop permutation seed min_data_size 0 raw_data) (\<lambda>balanced_data.
             let normal_data = remove_short_long balanced_data
             in bind_err (np_max_len (concat (map (map length) normal_data))) (\<lambda>longest.
                  let timesteps' = resolve_timesteps timesteps stepsize longest
                  in classes_loop detect timesteps' stepsize extrema_th 0 normal_data
                       \<lparr>data = [], labels = []\<rparr>))))"

text \<open>
  The constructor loads the raw data and calls \<^verbatim>\<open>preprocess\<close> with the default seed;
  an exception of \<^verbatim>\<open>preprocess\<close> leaves no object.
\<close>

definition PolymerDataset_init ::
  "detector \<Rightarrow> generator \<Rightarrow> event list list \<Rightarrow> int option \<Rightarrow> int option \<Rightarrow> real
   \<Rightarrow> error + dataset"
where
  "PolymerDataset_init detect permutation raw_data timesteps stepsize extrema_th =
     preprocess detect permutation raw_data timesteps stepsize extrema_th 42"

section \<open>Specification-side notions\<close>

text \<open>
  The contract of the peak detector: what it returns are indices into the signal it
  was given.
\<close>

definition detector_in_range :: "detector \<Rightarrow> bool" where
  "detector_in_range detect =
     (\<forall>signal width. \<forall>i \<in> set (detect signal width). i < length signal)"

text \<open>The contract of the generator: a permutation of \<open>0 ..< n\<close>.\<close>

definition generator_permutes :: "generator \<Rightarrow> bool" where
  "generator_permutes permutation =
     (\<forall>seed k n. mset (permutation seed k n) = mset [0 ..< n])"

text \<open>
  The statistics of an extrema sequence as the specification words them: the mean and
  the standard deviation over all time and current values taken together, and the mean
  of the absolute differences between the currents of consecutive extrema.
\<close>

definition combined_mean :: "sample list \<Rightarrow> real" where
  "combined_mean extrema =
     (sum_list (map fst extrema) + sum_list (map snd extrema)) / (2 * real (length extrema))"

definition combined_std :: "sample list \<Rightarrow> real" where
  "combined_std extrema =
     sqrt ((sum_list (map (\<lambda>s. (fst s - combined_mean extrema)\<^sup>2) extrema)
            + sum_list (map (\<lambda>s. (snd s - combined_mean extrema)\<^sup>2) extrema))
           / (2 * real (length extrema)))"

definition mean_abs_current_diff :: "sample list \<Rightarrow> real" where
  "mean_abs_current_diff extrema =
     sum_list (map (\<lambda>(a, b). \<bar>snd b - snd a\<bar>) (zip extrema (tl extrema)))
       / real (length extrema - 1)"

text \<open>The duration filter as the specification words it.\<close>

definition within_duration :: "event \<Rightarrow> bool" where
  "within_duration event = (50 < length event \<and> length event < 10000)"

section \<open>Stand-ins for the external collaborators\<close>

text \<open>
  Concrete collaborators for evaluating the model at concrete inputs: a detector that
  finds no peak, one that reports every index, and a generator that returns the
  identity permutation.
\<close>

definition detect_none :: detector where
  "detect_none signal width = []"

definition detect_every :: detector where
  "detect_every signal width = [0 ..< length signal]"

definition identity_permutation :: generator where
  "identity_permutation seed k n = [0 ..< n]"

section \<open>Verification\<close>

subsection \<open>The extrema loop\<close>

lemma extrema_upto_base: "k \<le> 1 \<Longrightarrow> extrema_upto event th k = [event ! 0]"
  by (simp add: extrema_upto_def)

lemma extrema_upto_Suc:
  "1 \<le> k \<Longrightarrow> extrema_upto event th (Suc k) = extrema_step event th (extrema_upto event th k) k"
  by (simp add: extrema_upto_def)

lemma extrema_step_cases:
  "extrema_step event th ex i = ex \<or> extrema_step event th ex i = ex @ [event ! i]"
  by (simp add: extrema_step_def Let_def)

lemma extrema_upto_nonempty: "extrema_upto event th k \<noteq> []"
proof (induction k)
  case 0
  show ?case by (simp add: extrema_upto_base)
next
  case (Suc k)
  show ?case
  proof (cases "1 \<le> k")
    case True
    with Suc extrema_step_cases [of event th "extrema_upto event th k" k] show ?thesis
      by (auto simp: extrema_upto_Suc)
  next
    case False
    then show ?thesis by (simp add: extrema_upto_base)
  qed
qed

lemma extrema_upto_hd: "hd (extrema_upto event th k) = event ! 0"
proof (induction k)
  case 0
  show ?case by (simp add: extrema_upto_base)
next
  case (Suc k)
  show ?case
  proof (cases "1 \<le> k")
    case True
    with Suc extrema_step_cases [of event th "extrema_upto event th k" k]
      extrema_upto_nonempty [of event th k] show ?thesis
      by (auto simp: extrema_upto_Suc)
  next
    case False
    then show ?thesis by (simp add: extrema_upto_base)
  qed
qed

lemma extrema_upto_subseq:
  "1 \<le> k \<Longrightarrow> k \<le> length event \<Longrightarrow> subseq (extrema_upto event th k) (take k event)"
proof (induction k)
  case 0
  then show ?case by simp
next
  case (Suc k)
  show ?case
  proof (cases "1 \<le> k")
    case True
    from Suc.prems have "k < length event" by simp
    then have tk: "take (Suc k) event = take k event @ [event ! k]"
      by (simp add: take_Suc_conv_app_nth)
    from Suc True have ih: "subseq (extrema_upto event th k) (take k event)" by simp
    from extrema_step_cases [of event th "extrema_upto event th k" k] show ?thesis
    proof
      assume "extrema_step event th (extrema_upto event th k) k = extrema_upto event th k"
      with ih tk True show ?thesis
        by (simp add: extrema_upto_Suc subseq_rev_drop_many)
    next
      assume "extrema_step event th (extrema_upto event th k) k = extrema_upto event th k @ [event ! k]"
      with ih tk True show ?thesis
        by (simp add: extrema_upto_Suc)
    qed
  next
    case False
    then have "k = 0" by simp
    with Suc.prems show ?thesis
      by (cases event) (simp_all add: extrema_upto_base)
  qed
qed

lemma find_extrema_upto:
  "event \<noteq> [] \<Longrightarrow>
   find_extrema event th = Inr (extrema_upto event th (length event - 1) @ [last event])"
  by (simp add: find_extrema_def extrema_upto_def)

lemma find_extrema_subseq:
  assumes "2 \<le> length event" and "find_extrema event th = Inr r"
  shows "subseq r event"
proof -
  from assms(1) have ne: "event \<noteq> []" by auto
  let ?k = "length event - 1"
  from assms(1) have k: "1 \<le> ?k" "?k \<le> length event" by simp_all
  have "subseq (extrema_upto event th ?k) (take ?k event)"
    using k by (rule extrema_upto_subseq)
  then have "subseq (extrema_upto event th ?k @ [last event]) (take ?k event @ [last event])"
    by simp
  moreover have "take ?k event @ [last event] = event"
    using ne by (metis butlast_conv_take append_butlast_last_id)
  moreover have "r = extrema_upto event th ?k @ [last event]"
    using assms(2) ne by (simp add: find_extrema_upto)
  ultimately show ?thesis by metis
qed

text \<open>
  Claim C3. For an event of at least two samples and any threshold (in particular any
  threshold \<open>\<ge> 0\<close>), \<open>find_extrema\<close> returns a sequence whose first row is the first
  sample of the event and whose last row is its last sample, the rows are a subsequence
  of the event (they keep their original order), and an event of exactly two samples
  yields exactly its two endpoints.
\<close>

theorem find_extrema_endpoints_order:
  assumes "2 \<le> length event"
  shows "\<exists>r. find_extrema event extrema_th = Inr r \<and> hd r = hd event \<and> last r = last event
             \<and> subseq r event \<and> (length event = 2 \<longrightarrow> r = event)"
proof -
  from assms have ne: "event \<noteq> []" by auto
  define r where "r = extrema_upto event extrema_th (length event - 1) @ [last event]"
  have fe: "find_extrema event extrema_th = Inr r"
    using ne by (simp add: find_extrema_upto r_def)
  have "hd r = event ! 0"
    by (simp add: r_def extrema_upto_nonempty extrema_upto_hd)
  then have h: "hd r = hd event" using ne by (simp add: hd_conv_nth)
  have l: "last r = last event" by (simp add: r_def)
  have s: "subseq r event" using assms fe by (rule find_extrema_subseq)
  have two: "r = event" if "length event = 2"
  proof -
    from that obtain a b where "event = [a, b]"
      by (metis (no_types, opaque_lifting) One_nat_def Suc_1 length_0_conv length_Suc_conv)
    then show ?thesis by (simp add: r_def extrema_upto_base)
  qed
  from fe h l s two show ?thesis by blast
qed

subsection \<open>Extrema and the threshold\<close>

lemma threshold_zero_invariant:
  assumes "0 \<le> th"
  shows "length (extrema_upto event th k) \<le> length (extrema_upto event 0 k) \<and>
         (snd (last (extrema_upto event 0 k)) = snd (last (extrema_upto event th k))
          \<or> length (extrema_upto event th k) < length (extrema_upto event 0 k))"
proof (induction k)
  case 0
  show ?case by (simp add: extrema_upto_base)
next
  case (Suc k)
  show ?case
  proof (cases "1 \<le> k")
    case True
    with Suc assms show ?thesis
      by (auto simp: extrema_upto_Suc extrema_step_def Let_def)
  next
    case False
    then show ?thesis by (simp add: extrema_upto_base)
  qed
qed

text \<open>
  Claim C4, as amended. The claim as stated (a smaller threshold never gives a shorter
  extrema sequence) fails, as the event after this theorem shows: a row is accepted
  relative to the last accepted row, which itself depends on the threshold.
  What holds is the comparison with threshold \<open>0\<close>: for every non-empty event and every
  threshold \<open>\<ge> 0\<close>, the extrema sequence for threshold \<open>0\<close> is at least as long as the
  one for that threshold.
\<close>

theorem find_extrema_zero_longest:
  assumes "0 \<le> extrema_th" and "event \<noteq> []"
  shows "\<exists>r0 r. find_extrema event 0 = Inr r0 \<and> find_extrema event extrema_th = Inr r
                \<and> length r \<le> length r0"
  using assms threshold_zero_invariant [OF assms(1), of event "length event - 1"]
  by (simp add: find_extrema_upto)

lemma find_extrema_at_least_two:
  assumes "event \<noteq> []"
  shows "\<exists>r. find_extrema event extrema_th = Inr r \<and> 2 \<le> length r
             \<and> (length event = 1 \<longrightarrow> r = [event ! 0, event ! 0])
             \<and> extrema_diffs r \<noteq> []"
proof -
  define r where "r = extrema_upto event extrema_th (length event - 1) @ [last event]"
  have fe: "find_extrema event extrema_th = Inr r"
    using assms by (simp add: find_extrema_upto r_def)
  have "extrema_upto event extrema_th (length event - 1) \<noteq> []"
    by (rule extrema_upto_nonempty)
  then have "1 \<le> length (extrema_upto event extrema_th (length event - 1))"
    by (simp add: Suc_leI)
  then have len: "2 \<le> length r" by (simp add: r_def)
  have one: "r = [event ! 0, event ! 0]" if "length event = 1"
  proof -
    from that obtain a where "event = [a]" by (cases event) auto
    then show ?thesis by (simp add: r_def extrema_upto_base)
  qed
  from len have "extrema_diffs r \<noteq> []" by (auto simp: extrema_diffs_def)
  with fe len one show ?thesis by blast
qed

subsection \<open>Statistics of the extrema and totality of the feature builder\<close>

lemma bind_err_Inr [simp]: "bind_err (Inr x) f = f x"
  by (simp add: bind_err_def)

lemma bind_err_Inl [simp]: "bind_err (Inl e) f = Inl e"
  by (simp add: bind_err_def)

lemma build_features_empty: "build_features detect [] th = Inr zero_features"
  by (simp add: build_features_def)

lemma zero_features_values: "features_values zero_features = replicate 17 (Num 0)"
  by (simp add: features_values_def zero_features_def numeral_eq_Suc)

lemma length_features_values: "length (features_values f) = 17"
  by (simp add: features_values_def)

lemma sum_list_flatten:
  "sum_list (map g (flatten rows))
     = sum_list (map (\<lambda>s. g (fst s)) rows) + (sum_list (map (\<lambda>s. g (snd s)) rows) :: real)"
  by (induction rows) (auto simp: flatten_def algebra_simps)

lemma length_flatten: "length (flatten rows) = 2 * length rows"
  by (induction rows) (auto simp: flatten_def)

lemma flatten_Nil_iff: "flatten rows = [] \<longleftrightarrow> rows = []"
  by (cases rows) (auto simp: flatten_def)

lemma np_mean_flatten:
  "rows \<noteq> [] \<Longrightarrow> np_mean (flatten rows) = Num (combined_mean rows)"
  using sum_list_flatten [of "\<lambda>x. x" rows]
  by (simp add: np_mean_def flatten_Nil_iff length_flatten combined_mean_def)

lemma np_std_flatten:
  "rows \<noteq> [] \<Longrightarrow> np_std (flatten rows) = Num (combined_std rows)"
proof -
  assume ne: "rows \<noteq> []"
  have m: "sum_list (flatten rows) / (2 * real (length rows)) = combined_mean rows"
    using sum_list_flatten [of "\<lambda>x. x" rows] by (simp add: combined_mean_def)
  show ?thesis
    using ne sum_list_flatten [of "\<lambda>x. (x - combined_mean rows)\<^sup>2" rows]
    by (simp add: np_std_def flatten_Nil_iff Let_def m combined_std_def length_flatten)
qed

lemma extrema_diffs_zip:
  "extrema_diffs ex = map (\<lambda>(a, b). \<bar>snd b - snd a\<bar>) (zip ex (tl ex))"
proof (rule nth_equalityI)
  show "length (extrema_diffs ex) = length (map (\<lambda>(a, b). \<bar>snd b - snd a\<bar>) (zip ex (tl ex)))"
    by (simp add: extrema_diffs_def)
next
  fix j assume "j < length (extrema_diffs ex)"
  then have j: "j < length ex - 1" by (simp add: extrema_diffs_def)
  then show "extrema_diffs ex ! j = map (\<lambda>(a, b). \<bar>snd b - snd a\<bar>) (zip ex (tl ex)) ! j"
    by (simp add: extrema_diffs_def nth_tl)
qed

lemma np_mean_extrema_diffs:
  "2 \<le> length ex \<Longrightarrow> np_mean (extrema_diffs ex) = Num (mean_abs_current_diff ex)"
proof -
  assume l: "2 \<le> length ex"
  then have "extrema_diffs ex \<noteq> []" by (auto simp: extrema_diffs_def)
  moreover have "length (extrema_diffs ex) = length ex - 1" by (simp add: extrema_diffs_def)
  ultimately show ?thesis
    by (simp add: np_mean_def mean_abs_current_diff_def extrema_diffs_zip [symmetric])
qed

lemma np_max_nonempty: "xs \<noteq> [] \<Longrightarrow> \<exists>m. np_max xs = Inr m"
  by (simp add: np_max_def)

lemma np_min_nonempty: "xs \<noteq> [] \<Longrightarrow> \<exists>m. np_min xs = Inr m"
  by (simp add: np_min_def)

lemma build_features_nonempty:
  assumes "event \<noteq> []"
  shows "\<exists>ex f0. find_extrema event th = Inr ex \<and> 2 \<le> length ex
           \<and> build_features detect event th =
               peak_features event (detect (map snd event) (max 1 (fst (last event)))) f0
           \<and> duration f0 = Num (fst (last event))
           \<and> num_extrema f0 = Num (real (length ex))
           \<and> mean_extrema f0 = np_mean (flatten ex)
           \<and> std_extrema f0 = np_std (flatten ex)
           \<and> mean_extrema_diff f0 = np_mean (extrema_diffs ex)
           \<and> num_peaks f0 = Num (real (length (detect (map snd event) (max 1 (fst (last event))))))
           \<and> mean_peaks f0 = Num 0 \<and> peak_1 f0 = Num 0 \<and> peak_2 f0 = Num 0
           \<and> peak_3 f0 = Num 0 \<and> peak_4 f0 = Num 0 \<and> peak_5 f0 = Num 0"
proof -
  from assms obtain mx where mx: "np_max (map snd event) = Inr mx"
    using np_max_nonempty [of "map snd event"] by auto
  from assms obtain mn where mn: "np_min (map snd event) = Inr mn"
    using np_min_nonempty [of "map snd event"] by auto
  from find_extrema_at_least_two [OF assms, of th]
  obtain ex where ex: "find_extrema event th = Inr ex" "2 \<le> length ex" by blast
  define f0 where "f0 = zero_features
                     \<lparr>num_signals := Num (real (length event)),
                      duration := Num (fst (last event)),
                      max_current := Num mx,
                      min_current := Num mn,
                      mean_current := np_mean (map snd event),
                      std_current := np_std (map snd event),
                      num_extrema := Num (real (length ex)),
                      mean_extrema := np_mean (flatten ex),
                      std_extrema := np_std (flatten ex),
                      mean_extrema_diff := np_mean (extrema_diffs ex),
                      num_peaks := Num (real (length (detect (map snd event) (max 1 (fst (last event))))))\<rparr>"
  have bf: "build_features detect event th =
               peak_features event (detect (map snd event) (max 1 (fst (last event)))) f0"
    using assms mx mn ex by (simp add: build_features_def Let_def f0_def)
  have fields: "duration f0 = Num (fst (last event))"
    "num_extrema f0 = Num (real (length ex))"
    "mean_extrema f0 = np_mean (flatten ex)"
    "std_extrema f0 = np_std (flatten ex)"
    "mean_extrema_diff f0 = np_mean (extrema_diffs ex)"
    "num_peaks f0 = Num (real (length (detect (map snd event) (max 1 (fst (last event))))))"
    "mean_peaks f0 = Num 0" "peak_1 f0 = Num 0" "peak_2 f0 = Num 0"
    "peak_3 f0 = Num 0" "peak_4 f0 = Num 0" "peak_5 f0 = Num 0"
    by (simp_all add: f0_def zero_features_def)
  from ex bf fields show ?thesis by blast
qed

lemma peak_features_in_range:
  assumes "\<forall>i \<in> set peaks_idx. i < length event"
  shows "peak_features event peaks_idx f =
           (if peaks_idx = [] then Inr f
            else (let peaks = sorted_reverse (map (\<lambda>i. snd (event ! i)) peaks_idx)
                  in Inr (f\<lparr>mean_peaks := np_mean peaks,
                      peak_1 := peak_or_zero peaks 0,
                      peak_2 := peak_or_zero peaks 1,
                      peak_3 := peak_or_zero peaks 2,
                      peak_4 := peak_or_zero peaks 3,
                      peak_5 := peak_or_zero peaks 4\<rparr>)))"
  using assms by (simp add: peak_features_def np_take_def Let_def comp_def)

lemma peak_features_total:
  assumes "\<forall>i \<in> set peaks_idx. i < length event"
  shows "\<exists>f'. peak_features event peaks_idx f = Inr f'
            \<and> num_signals f' = num_signals f \<and> duration f' = duration f
            \<and> max_current f' = max_current f \<and> min_current f' = min_current f
            \<and> mean_current f' = mean_current f \<and> std_current f' = std_current f
            \<and> num_extrema f' = num_extrema f \<and> mean_extrema f' = mean_extrema f
            \<and> std_extrema f' = std_extrema f \<and> mean_extrema_diff f' = mean_extrema_diff f
            \<and> num_peaks f' = num_peaks f"
  by (simp add: peak_features_in_range [OF assms] Let_def)

subsection \<open>Features of a window\<close>

text \<open>
  Claim C2. On an empty window \<open>build_features\<close> returns the feature vector whose
  seventeen fields are all \<open>0\<close>, whatever the detector and the threshold.
\<close>

theorem build_features_empty_window:
  "build_features detect [] extrema_th = Inr zero_features
   \<and> features_values zero_features = replicate 17 (Num 0)
   \<and> num_signals zero_features = Num 0 \<and> duration zero_features = Num 0
   \<and> max_current zero_features = Num 0 \<and> min_current zero_features = Num 0
   \<and> mean_current zero_features = Num 0 \<and> std_current zero_features = Num 0
   \<and> num_extrema zero_features = Num 0 \<and> mean_extrema zero_features = Num 0
   \<and> std_extrema zero_features = Num 0 \<and> mean_extrema_diff zero_features = Num 0
   \<and> num_peaks zero_features = Num 0 \<and> mean_peaks zero_features = Num 0
   \<and> peak_1 zero_features = Num 0 \<and> peak_2 zero_features = Num 0
   \<and> peak_3 zero_features = Num 0 \<and> peak_4 zero_features = Num 0
   \<and> peak_5 zero_features = Num 0"
  by (simp add: build_features_empty zero_features_values) (simp add: zero_features_def)

text \<open>
  Claim C8. On a non-empty window (the detector returning indices into the window),
  \<open>build_features\<close> sets \<open>num_extrema\<close> to the number of rows \<open>find_extrema\<close> returns,
  \<open>mean_extrema\<close> and \<open>std_extrema\<close> to the mean and standard deviation over the time
  and current values of the extrema taken together, and \<open>mean_extrema_diff\<close> to the mean
  of the absolute differences between the currents of consecutive extrema.
\<close>

theorem build_features_extrema:
  assumes "event \<noteq> []"
    and "\<forall>i \<in> set (detect (map snd event) (max 1 (fst (last event)))). i < length event"
  shows "\<exists>f extrema. build_features detect event extrema_th = Inr f
           \<and> find_extrema event extrema_th = Inr extrema
           \<and> num_extrema f = Num (real (length extrema))
           \<and> mean_extrema f = Num (combined_mean extrema)
           \<and> std_extrema f = Num (combined_std extrema)
           \<and> mean_extrema_diff f = Num (mean_abs_current_diff extrema)"
proof -
  from build_features_nonempty [OF assms(1), of extrema_th detect]
  obtain ex f0 where ex: "find_extrema event extrema_th = Inr ex" "2 \<le> length ex"
    and bf: "build_features detect event extrema_th =
               peak_features event (detect (map snd event) (max 1 (fst (last event)))) f0"
    and f0: "num_extrema f0 = Num (real (length ex))" "mean_extrema f0 = np_mean (flatten ex)"
      "std_extrema f0 = np_std (flatten ex)" "mean_extrema_diff f0 = np_mean (extrema_diffs ex)"
    by blast
  from peak_features_total [OF assms(2), of f0]
  obtain f where f: "peak_features event (detect (map snd event) (max 1 (fst (last event)))) f0 = Inr f"
    "num_extrema f = num_extrema f0" "mean_extrema f = mean_extrema f0"
    "std_extrema f = std_extrema f0" "mean_extrema_diff f = mean_extrema_diff f0"
    by blast
  from ex(2) have ne: "ex \<noteq> []" by auto
  have "build_features detect event extrema_th = Inr f" using bf f(1) by simp
  moreover have "num_extrema f = Num (real (length ex))" using f f0 by simp
  moreover have "mean_extrema f = Num (combined_mean ex)"
    using f f0 np_mean_flatten [OF ne] by simp
  moreover have "std_extrema f = Num (combined_std ex)"
    using f f0 np_std_flatten [OF ne] by simp
  moreover have "mean_extrema_diff f = Num (mean_abs_current_diff ex)"
    using f f0 np_mean_extrema_diffs [OF ex(2)] by simp
  ultimately show ?thesis using ex(1) by blast
qed

theorem build_features_extrema_witness:
  "\<exists>f. build_features detect_none [(0, 1), (1, 3), (2, 2)] 0 = Inr f
       \<and> find_extrema [(0, 1), (1, 3), (2, 2)] 0 = Inr [(0, 1), (1, 3), (2, 2)]
       \<and> num_extrema f = Num 3 \<and> mean_extrema f = Num (3 / 2)
       \<and> mean_extrema_diff f = Num (3 / 2)"
proof -
  have h1: "([(0, 1), (1, 3), (2, 2)] :: event) \<noteq> []" by simp
  have h2: "\<forall>i \<in> set (detect_none (map snd ([(0, 1), (1, 3), (2, 2)] :: event))
                         (max 1 (fst (last ([(0, 1), (1, 3), (2, 2)] :: event))))).
              i < length ([(0, 1), (1, 3), (2, 2)] :: event)"
    by (simp add: detect_none_def)
  have fe: "find_extrema [(0, 1), (1, 3), (2, 2)] 0 = Inr [(0, 1), (1, 3), (2, 2)]"
    by (simp add: find_extrema_def extrema_step_def upt_conv_Cons)
  from build_features_extrema [where detect = detect_none and extrema_th = 0, OF h1 h2] fe show ?thesis
    by (auto simp: combined_mean_def mean_abs_current_diff_def)
qed

text \<open>
  Claim C9. On a non-empty window, \<open>build_features\<close> gives the detector the current
  column and the width \<open>max 1 duration\<close>, where \<open>duration\<close> is the time of the last
  sample; \<open>num_peaks\<close> is the number of indices returned. With \<open>ranked\<close> the peak currents
  in descending order, \<open>mean_peaks\<close> is the mean of the peak currents and \<open>peak_1\<close> to
  \<open>peak_5\<close> are the first five entries of \<open>ranked\<close>, \<open>0\<close> where \<open>ranked\<close> is too
  short; without peaks all six stay \<open>0\<close>.
\<close>

theorem build_features_peaks:
  assumes "event \<noteq> []"
    and "\<forall>i \<in> set (detect (map snd event) (max 1 (fst (last event)))). i < length event"
  shows "\<exists>f ranked.
           build_features detect event extrema_th = Inr f
           \<and> duration f = Num (fst (last event))
           \<and> (let peaks_idx = detect (map snd event) (max 1 (fst (last event)));
                   currents = map (\<lambda>i. snd (event ! i)) peaks_idx
               in num_peaks f = Num (real (length peaks_idx))
                  \<and> sorted_wrt (\<ge>) ranked \<and> mset ranked = mset currents
                  \<and> mean_peaks f = (if peaks_idx = [] then Num 0
                                     else Num (sum_list currents / real (length currents))))
           \<and> peak_1 f = (if 0 < length ranked then Num (ranked ! 0) else Num 0)
           \<and> peak_2 f = (if 1 < length ranked then Num (ranked ! 1) else Num 0)
           \<and> peak_3 f = (if 2 < length ranked then Num (ranked ! 2) else Num 0)
           \<and> peak_4 f = (if 3 < length ranked then Num (ranked ! 3) else Num 0)
           \<and> peak_5 f = (if 4 < length ranked then Num (ranked ! 4) else Num 0)"
proof -
  define peaks_idx where "peaks_idx = detect (map snd event) (max 1 (fst (last event)))"
  define currents where "currents = map (\<lambda>i. snd (event ! i)) peaks_idx"
  define ranked where "ranked = sorted_reverse currents"
  from build_features_nonempty [OF assms(1), of extrema_th detect]
  obtain f0 where
    bf: "build_features detect event extrema_th = peak_features event peaks_idx f0"
    and f0: "duration f0 = Num (fst (last event))"
      "num_peaks f0 = Num (real (length peaks_idx))"
      "mean_peaks f0 = Num 0" "peak_1 f0 = Num 0" "peak_2 f0 = Num 0"
      "peak_3 f0 = Num 0" "peak_4 f0 = Num 0" "peak_5 f0 = Num 0"
    unfolding peaks_idx_def by blast
  from assms(2) have rng: "\<forall>i \<in> set peaks_idx. i < length event"
    by (simp add: peaks_idx_def)
  have srt: "sorted_wrt (\<ge>) ranked"
    by (simp add: ranked_def sorted_reverse_def sorted_wrt_rev)
  have ms: "mset ranked = mset currents"
    by (simp add: ranked_def sorted_reverse_def)
  have sm: "sum_list ranked = sum_list currents"
    using ms by (metis sum_mset_sum_list)
  have ln: "length ranked = length currents"
    using ms by (metis size_mset)
  have lc: "length currents = length peaks_idx" by (simp add: currents_def)
  have main: "\<exists>f ranked.
           build_features detect event extrema_th = Inr f
           \<and> duration f = Num (fst (last event))
           \<and> (num_peaks f = Num (real (length peaks_idx))
                  \<and> sorted_wrt (\<ge>) ranked \<and> mset ranked = mset currents
                  \<and> mean_peaks f = (if peaks_idx = [] then Num 0
                                     else Num (sum_list currents / real (length currents))))
           \<and> peak_1 f = (if 0 < length ranked then Num (ranked ! 0) else Num 0)
           \<and> peak_2 f = (if 1 < length ranked then Num (ranked ! 1) else Num 0)
           \<and> peak_3 f = (if 2 < length ranked then Num (ranked ! 2) else Num 0)
           \<and> peak_4 f = (if 3 < length ranked then Num (ranked ! 3) else Num 0)
           \<and> peak_5 f = (if 4 < length ranked then Num (ranked ! 4) else Num 0)"
  proof (cases "peaks_idx = []")
    case True
    then have "build_features detect event extrema_th = Inr f0"
      using bf by (simp add: peak_features_def)
    moreover from True have "ranked = []" using ln lc by simp
    ultimately show ?thesis
      using f0 True ms
      by (intro exI [of _ f0] exI [of _ "ranked"]) simp
  next
    case False
    define f where "f = f0\<lparr>mean_peaks := np_mean ranked,
                      peak_1 := peak_or_zero ranked 0,
                      peak_2 := peak_or_zero ranked 1,
                      peak_3 := peak_or_zero ranked 2,
                      peak_4 := peak_or_zero ranked 3,
                      peak_5 := peak_or_zero ranked 4\<rparr>"
    from False have bff: "build_features detect event extrema_th = Inr f"
      using bf peak_features_in_range [OF rng, of f0]
      by (simp add: Let_def f_def ranked_def currents_def)
    from False have rne: "ranked \<noteq> []" using ln lc by auto
    have mp: "mean_peaks f = Num (sum_list currents / real (length currents))"
      using rne sm ln by (simp add: f_def np_mean_def)
    have pk: "peak_1 f = peak_or_zero ranked 0" "peak_2 f = peak_or_zero ranked 1"
      "peak_3 f = peak_or_zero ranked 2" "peak_4 f = peak_or_zero ranked 3"
      "peak_5 f = peak_or_zero ranked 4"
      by (simp_all add: f_def)
    have fs: "duration f = Num (fst (last event))" "num_peaks f = Num (real (length peaks_idx))"
      using f0 by (simp_all add: f_def)
    show ?thesis
      using bff fs srt ms mp pk False
      by (intro exI [of _ f] exI [of _ ranked]) (simp add: peak_or_zero_def)
  qed
  then show ?thesis
    unfolding Let_def currents_def peaks_idx_def .
qed

subsection \<open>Concrete events\<close>

theorem find_extrema_endpoints_order_witness:
  "\<exists>r. find_extrema [(0, 1), (1, 3), (2, 2)] 1 = Inr r \<and> hd r = (0, 1) \<and> last r = (2, 2)
       \<and> subseq r [(0, 1), (1, 3), (2, 2)]"
proof -
  have h: "2 \<le> length ([(0, 1), (1, 3), (2, 2)] :: event)" by simp
  from find_extrema_endpoints_order [OF h, of 1] show ?thesis by simp
qed

text \<open>
  Claim C4, counterexample. On the seven-sample event with currents
  \<open>0, 11, 10, 20, 5, 20, 0\<close> the threshold \<open>10\<close> yields three extrema and the larger
  threshold \<open>12\<close> yields five.
\<close>

theorem find_extrema_threshold_counterexample:
  "(10 :: real) < 12
   \<and> find_extrema [(0, 0), (1, 11), (2, 10), (3, 20), (4, 5), (5, 20), (6, 0)] 10
       = Inr [(0, 0), (1, 11), (6, 0)]
   \<and> find_extrema [(0, 0), (1, 11), (2, 10), (3, 20), (4, 5), (5, 20), (6, 0)] 12
       = Inr [(0, 0), (3, 20), (4, 5), (5, 20), (6, 0)]
   \<and> \<not> length (projr (find_extrema [(0, 0), (1, 11), (2, 10), (3, 20), (4, 5), (5, 20), (6, 0)] 10))
        \<ge> length (projr (find_extrema [(0, 0), (1, 11), (2, 10), (3, 20), (4, 5), (5, 20), (6, 0)] 12))"
  by (simp add: find_extrema_def extrema_step_def upt_conv_Cons)

theorem find_extrema_zero_longest_witness:
  "\<exists>r0 r. find_extrema [(0, 0), (1, 11), (2, 10), (3, 20), (4, 5), (5, 20), (6, 0)] 0 = Inr r0
         \<and> find_extrema [(0, 0), (1, 11), (2, 10), (3, 20), (4, 5), (5, 20), (6, 0)] 12 = Inr r
         \<and> length r = 5 \<and> length r0 = 7 \<and> length r \<le> length r0"
proof -
  have h1: "(0 :: real) \<le> 12" by simp
  have h2: "([(0, 0), (1, 11), (2, 10), (3, 20), (4, 5), (5, 20), (6, 0)] :: event) \<noteq> []"
    by simp
  from find_extrema_zero_longest [OF h1 h2] show ?thesis
    by (simp add: find_extrema_def extrema_step_def upt_conv_Cons)
qed

lemma peak_features_keeps_extrema_diff:
  "peak_features event peaks_idx f0 = Inr f \<Longrightarrow> mean_extrema_diff f = mean_extrema_diff f0"
  by (auto simp: peak_features_def np_take_def Let_def split: if_splits)

text \<open>
  Claim C10. For an event of at least one sample and any threshold, \<open>find_extrema\<close>
  returns at least two rows (for a single sample, that sample twice); hence the list of
  consecutive differences that \<open>build_features\<close> averages is not empty, the average is
  not NaN, and it is the value of \<open>mean_extrema_diff\<close> whenever \<open>build_features\<close>
  returns.
\<close>

theorem extrema_diffs_never_empty:
  assumes "event \<noteq> []"
  shows "\<exists>r. find_extrema event extrema_th = Inr r \<and> 2 \<le> length r
             \<and> (length event = 1 \<longrightarrow> r = [event ! 0, event ! 0])
             \<and> extrema_diffs r \<noteq> []
             \<and> np_mean (extrema_diffs r) \<noteq> NaN
             \<and> (\<forall>f. build_features detect event extrema_th = Inr f
                    \<longrightarrow> mean_extrema_diff f = np_mean (extrema_diffs r))"
proof -
  from find_extrema_at_least_two [OF assms, of extrema_th]
  obtain r where r: "find_extrema event extrema_th = Inr r" "2 \<le> length r"
    "length event = 1 \<longrightarrow> r = [event ! 0, event ! 0]" "extrema_diffs r \<noteq> []"
    by blast
  from r(4) have nn: "np_mean (extrema_diffs r) \<noteq> NaN" by (simp add: np_mean_def)
  from build_features_nonempty [OF assms, of extrema_th detect] r(1)
  obtain f0 where bf: "build_features detect event extrema_th =
               peak_features event (detect (map snd event) (max 1 (fst (last event)))) f0"
    and f0: "mean_extrema_diff f0 = np_mean (extrema_diffs r)"
    by auto
  have "mean_extrema_diff f = np_mean (extrema_diffs r)"
    if "build_features detect event extrema_th = Inr f" for f
    using that bf f0 peak_features_keeps_extrema_diff by metis
  with r nn show ?thesis by blast
qed

theorem extrema_diffs_never_empty_witness:
  "find_extrema [(0, 5)] 0 = Inr [(0, 5), (0, 5)]
   \<and> extrema_diffs [(0, 5), (0, 5)] = [0]
   \<and> (\<exists>f. build_features detect_none [(0, 5)] 0 = Inr f \<and> mean_extrema_diff f = Num 0)"
proof -
  have h: "([(0, 5)] :: event) \<noteq> []" by simp
  from extrema_diffs_never_empty [OF h, of 0 detect_none] show ?thesis
    by (simp add: find_extrema_def extrema_diffs_def build_features_def np_max_def np_min_def
        peak_features_def detect_none_def np_mean_def)
qed

theorem build_features_peaks_witness:
  "\<exists>f. build_features detect_every [(0, 1), (1, 3), (2, 2)] 0 = Inr f
       \<and> duration f = Num 2 \<and> num_peaks f = Num 3 \<and> mean_peaks f = Num 2
       \<and> peak_1 f = Num 3 \<and> peak_2 f = Num 2 \<and> peak_3 f = Num 1
       \<and> peak_4 f = Num 0 \<and> peak_5 f = Num 0"
proof -
  have h1: "([(0, 1), (1, 3), (2, 2)] :: event) \<noteq> []" by simp
  have h2: "\<forall>i \<in> set (detect_every (map snd ([(0, 1), (1, 3), (2, 2)] :: event))
                         (max 1 (fst (last ([(0, 1), (1, 3), (2, 2)] :: event))))).
              i < length ([(0, 1), (1, 3), (2, 2)] :: event)"
    by (simp add: detect_every_def)
  from build_features_peaks [where detect = detect_every and extrema_th = 0, OF h1 h2]
  show ?thesis
    by (simp add: build_features_def np_max_def np_min_def find_extrema_def extrema_step_def
        peak_features_def detect_every_def np_take_def sorted_reverse_def np_mean_def
        peak_or_zero_def upt_conv_Cons Let_def)
qed

subsection \<open>Segmenting an event\<close>

lemma build_features_total:
  assumes "detector_in_range detect"
  shows "\<exists>f. build_features detect window th = Inr f"
proof (cases "window = []")
  case True
  then show ?thesis by (simp add: build_features_empty)
next
  case False
  from build_features_nonempty [OF False, of th detect]
  obtain f0 where bf: "build_features detect window th =
      peak_features window (detect (map snd window) (max 1 (fst (last window)))) f0"
    by blast
  from assms have "\<forall>i \<in> set (detect (map snd window) (max 1 (fst (last window)))).
      i < length (map snd window)"
    unfolding detector_in_range_def by blast
  then have "\<forall>i \<in> set (detect (map snd window) (max 1 (fst (last window)))). i < length window"
    by simp
  from peak_features_total [OF this, of f0] bf show ?thesis by auto
qed

lemma py_slice_past_end:
  assumes "int (length a) \<le> start"
  shows "py_slice a start stop = []"
proof -
  from assms have "0 \<le> start" by linarith
  with assms show ?thesis by (simp add: py_slice_def Let_def min_def)
qed

lemma process_loop_rows:
  assumes "detector_in_range detect"
  shows "\<exists>m. process_loop detect event s th idxs acc = Inr (acc @ m)
             \<and> length m = length idxs
             \<and> (\<forall>row \<in> set m. length row = 17)
             \<and> (\<forall>j < length idxs.
                   py_slice event (int (idxs ! j) * s) ((int (idxs ! j) + 1) * s) = []
                   \<longrightarrow> m ! j = replicate 17 (Num 0))"
proof (induction idxs arbitrary: acc)
  case Nil
  show ?case by simp
next
  case (Cons i rest)
  let ?w = "py_slice event (int i * s) ((int i + 1) * s)"
  from build_features_total [OF assms, of ?w th]
  obtain f where f: "build_features detect ?w th = Inr f" by blast
  from Cons.IH [of "acc @ [features_values f]"]
  obtain m' where m': "process_loop detect event s th rest (acc @ [features_values f])
                         = Inr ((acc @ [features_values f]) @ m')"
    "length m' = length rest" "\<forall>row \<in> set m'. length row = 17"
    "\<forall>j < length rest.
        py_slice event (int (rest ! j) * s) ((int (rest ! j) + 1) * s) = []
        \<longrightarrow> m' ! j = replicate 17 (Num 0)"
    by blast
  let ?m = "features_values f # m'"
  have run: "process_loop detect event s th (i # rest) acc = Inr (acc @ ?m)"
    using f m'(1) by (simp add: Let_def)
  have len: "length ?m = length (i # rest)" using m'(2) by simp
  have rows: "\<forall>row \<in> set ?m. length row = 17"
    using m'(3) by (simp add: length_features_values)
  have zero: "?m ! j = replicate 17 (Num 0)"
    if "j < length (i # rest)"
      and "py_slice event (int ((i # rest) ! j) * s) ((int ((i # rest) ! j) + 1) * s) = []"
    for j
  proof (cases j)
    case 0
    with that(2) have "?w = []" by simp
    with f have "f = zero_features" by (simp add: build_features_empty)
    with 0 show ?thesis by (simp add: zero_features_values)
  next
    case (Suc j')
    with that m'(4) show ?thesis by simp
  qed
  from run len rows zero show ?case by blast
qed

lemma resolve_stepsize_cases:
  "timesteps \<noteq> 0 \<or> truthy stepsize \<Longrightarrow>
   resolve_stepsize event timesteps stepsize =
     Inr (if truthy stepsize then the stepsize else ceil_div (int (length event)) timesteps)"
  by (auto simp: resolve_stepsize_def)

lemma process_event_rows:
  assumes "detector_in_range detect" and "timesteps \<noteq> 0 \<or> truthy stepsize"
  shows "\<exists>s m. resolve_stepsize event timesteps stepsize = Inr s
             \<and> process_event detect event timesteps stepsize th = Inr m
             \<and> length m = nat timesteps
             \<and> (\<forall>row \<in> set m. length row = 17)
             \<and> (\<forall>i < nat timesteps.
                   py_slice event (int i * s) ((int i + 1) * s) = []
                   \<longrightarrow> m ! i = replicate 17 (Num 0))"
proof -
  define s where "s = (if truthy stepsize then the stepsize
                       else ceil_div (int (length event)) timesteps)"
  have rs: "resolve_stepsize event timesteps stepsize = Inr s"
    using assms(2) by (simp add: resolve_stepsize_cases s_def)
  from process_loop_rows [OF assms(1), of event s th "[0 ..< nat timesteps]" "[]"]
  obtain m where m: "process_loop detect event s th [0 ..< nat timesteps] [] = Inr m"
    "length m = nat timesteps" "\<forall>row \<in> set m. length row = 17"
    "\<forall>j < nat timesteps.
        py_slice event (int ([0 ..< nat timesteps] ! j) * s)
          ((int ([0 ..< nat timesteps] ! j) + 1) * s) = []
        \<longrightarrow> m ! j = replicate 17 (Num 0)"
    by auto
  have pe: "process_event detect event timesteps stepsize th = Inr m"
    using rs m(1) by (simp add: process_event_def)
  have z: "\<forall>i < nat timesteps. py_slice event (int i * s) ((int i + 1) * s) = []
              \<longrightarrow> m ! i = replicate 17 (Num 0)"
    using m(4) by simp
  from rs pe m(2,3) z show ?thesis by blast
qed

text \<open>
  Claim C1. For a positive number of timesteps, a detector that returns indices into its
  signal, and a stepsize supplied or left out, \<open>_process_event\<close> returns an array of
  exactly \<open>timesteps\<close> rows of seventeen entries each, and every row whose window starts
  at or past the end of the event is the all-zero row.
\<close>

theorem process_event_shape:
  assumes "detector_in_range detect" and "0 < timesteps"
  shows "\<exists>s m. resolve_stepsize event timesteps stepsize = Inr s
             \<and> process_event detect event timesteps stepsize extrema_th = Inr m
             \<and> length m = nat timesteps
             \<and> (\<forall>row \<in> set m. length row = 17)
             \<and> (\<forall>i < nat timesteps.
                   py_slice event (int i * s) ((int i + 1) * s) = []
                   \<longrightarrow> m ! i = replicate 17 (Num 0))
             \<and> (\<forall>i < nat timesteps.
                   int (length event) \<le> int i * s \<longrightarrow> m ! i = replicate 17 (Num 0))"
proof -
  from assms(2) have "timesteps \<noteq> 0 \<or> truthy stepsize" by simp
  from process_event_rows [OF assms(1) this, of event extrema_th]
  obtain s m where sm: "resolve_stepsize event timesteps stepsize = Inr s"
    "process_event detect event timesteps stepsize extrema_th = Inr m"
    "length m = nat timesteps" "\<forall>row \<in> set m. length row = 17"
    "\<forall>i < nat timesteps. py_slice event (int i * s) ((int i + 1) * s) = []
        \<longrightarrow> m ! i = replicate 17 (Num 0)"
    by blast
  have "\<forall>i < nat timesteps. int (length event) \<le> int i * s \<longrightarrow> m ! i = replicate 17 (Num 0)"
    using sm(5) py_slice_past_end by blast
  with sm show ?thesis by blast
qed

lemma detect_none_in_range: "detector_in_range detect_none"
  by (simp add: detector_in_range_def detect_none_def)

theorem process_event_shape_witness:
  "\<exists>m. process_event detect_none [(0, 1), (1, 3), (2, 2)] 3 (Some 2) 0 = Inr m
       \<and> length m = 3 \<and> length (m ! 0) = 17 \<and> m ! 2 = replicate 17 (Num 0)"
proof -
  have h: "(0 :: int) < 3" by simp
  from process_event_shape [OF detect_none_in_range h, of "[(0, 1), (1, 3), (2, 2)]" "Some 2" 0]
  obtain s m where sm: "resolve_stepsize [(0, 1), (1, 3), (2, 2)] 3 (Some 2) = Inr s"
    "process_event detect_none [(0, 1), (1, 3), (2, 2)] 3 (Some 2) 0 = Inr m"
    "length m = nat 3" "\<forall>row \<in> set m. length row = 17"
    "\<forall>i < nat 3. int (length ([(0, 1), (1, 3), (2, 2)] :: event)) \<le> int i * s
        \<longrightarrow> m ! i = replicate 17 (Num 0)"
    by blast
  from sm(1) have s: "s = 2" by (simp add: resolve_stepsize_def truthy_def)
  from sm(5) s have "m ! 2 = replicate 17 (Num 0)" by simp
  moreover from sm(3,4) have "length (m ! 0) = 17" by simp
  ultimately show ?thesis using sm(2,3) by simp
qed

subsection \<open>Filtering and the loops of the preparation\<close>

lemma normal_events_loop_filter:
  "normal_events_loop b_data acc = acc @ filter within_duration b_data"
  by (induction b_data arbitrary: acc)
     (simp_all add: within_duration_def min_event_len_def max_event_len_def)

lemma remove_short_long_filter:
  "remove_short_long balanced_data = map (filter within_duration) balanced_data"
  by (simp add: remove_short_long_def normal_events_loop_filter)

text \<open>
  Claim C6. With neither \<open>timesteps\<close> nor \<open>stepsize\<close> given, \<open>preprocess\<close> raises the
  ValueError of the configuration check, whatever the other arguments; the constructor
  then raises as well, so no dataset comes into being.
\<close>

theorem preprocess_requires_configuration:
  "preprocess detect permutation raw_data None None extrema_th seed
     = Inl (ValueError ''Either timesteps or stepsize should be specified'')
   \<and> PolymerDataset_init detect permutation raw_data None None extrema_th
     = Inl (ValueError ''Either timesteps or stepsize should be specified'')"
  by (simp add: preprocess_def PolymerDataset_init_def truthy_def)

lemma generator_indices_in_range:
  assumes "generator_permutes permutation"
  shows "\<forall>i \<in> set (take m (permutation seed k n)). i < n"
proof
  fix i assume "i \<in> set (take m (permutation seed k n))"
  then have "i \<in> set (permutation seed k n)" by (rule in_set_takeD)
  moreover from assms have "set (permutation seed k n) = set [0 ..< n]"
    unfolding generator_permutes_def by (metis mset_eq_setD)
  ultimately show "i < n" by simp
qed

lemma balance_loop_total:
  assumes "generator_permutes permutation"
  shows "\<exists>balanced. balance_loop permutation seed m k raw_data = Inr balanced
                    \<and> length balanced = length raw_data"
proof (induction raw_data arbitrary: k)
  case Nil
  show ?case by simp
next
  case (Cons r_data rest)
  from generator_indices_in_range [OF assms, of m seed k "length r_data"]
  have "np_take r_data (take m (permutation seed k (length r_data)))
          = Inr (map ((!) r_data) (take m (permutation seed k (length r_data))))"
    by (simp add: np_take_def)
  moreover from Cons.IH [of "Suc k"]
  obtain balanced where "balance_loop permutation seed m (Suc k) rest = Inr balanced"
    "length balanced = length rest" by blast
  ultimately show ?case by (simp add: Let_def)
qed

lemma events_loop_total:
  assumes "detector_in_range detect" and "timesteps \<noteq> 0 \<or> truthy stepsize"
  shows "\<exists>d'. events_loop detect timesteps stepsize th data_index events d = Inr d'
              \<and> labels d' = labels d @ replicate (length events) data_index
              \<and> length (data d') = length (data d) + length events"
proof (induction events arbitrary: d)
  case Nil
  show ?case by simp
next
  case (Cons event rest)
  from process_event_rows [OF assms, of event th]
  obtain m where m: "process_event detect event timesteps stepsize th = Inr m" by blast
  from Cons.IH [of "d\<lparr>data := data d @ [m], labels := labels d @ [data_index]\<rparr>"]
  obtain d' where d': "events_loop detect timesteps stepsize th data_index rest
        (d\<lparr>data := data d @ [m], labels := labels d @ [data_index]\<rparr>) = Inr d'"
    "labels d' = (labels d @ [data_index]) @ replicate (length rest) data_index"
    "length (data d') = length (data d @ [m]) + length rest"
    by auto
  from m d' show ?case by (simp add: replicate_app_Cons_same)
qed

text \<open>The labels the loops append: the class index, once per event of the class.\<close>

lemma classes_loop_total:
  assumes "detector_in_range detect" and "timesteps \<noteq> 0 \<or> truthy stepsize"
  shows "\<exists>d'. classes_loop detect timesteps stepsize th k classes d = Inr d'
              \<and> labels d' = labels d @ concat (map (\<lambda>(i, events). replicate (length events) i)
                                                  (zip [k ..< k + length classes] classes))
              \<and> length (data d') = length (data d) + length (concat classes)"
proof (induction classes arbitrary: k d)
  case Nil
  show ?case by simp
next
  case (Cons events rest)
  from events_loop_total [OF assms, of th k events d]
  obtain d1 where d1: "events_loop detect timesteps stepsize th k events d = Inr d1"
    "labels d1 = labels d @ replicate (length events) k"
    "length (data d1) = length (data d) + length events"
    by blast
  from Cons.IH [of "Suc k" d1]
  obtain d' where d': "classes_loop detect timesteps stepsize th (Suc k) rest d1 = Inr d'"
    "labels d' = labels d1 @ concat (map (\<lambda>(i, events). replicate (length events) i)
                                        (zip [Suc k ..< Suc k + length rest] rest))"
    "length (data d') = length (data d1) + length (concat rest)"
    by blast
  have "[k ..< k + length (events # rest)] = k # [Suc k ..< k + length (events # rest)]"
    by (rule upt_conv_Cons) simp
  moreover have "k + length (events # rest) = Suc k + length rest" by simp
  ultimately have "[k ..< k + length (events # rest)] = k # [Suc k ..< Suc k + length rest]"
    by (simp only:)
  with d1 d' show ?case by (simp del: upt_Suc)
qed

subsection \<open>Outcome of the preparation\<close>

lemma preprocess_after_balancing:
  assumes "truthy timesteps \<or> truthy stepsize"
    and "py_min (map length raw_data) = Inr m"
    and "balance_loop permutation seed m 0 raw_data = Inr balanced"
  shows "preprocess detect permutation raw_data timesteps stepsize th seed =
           bind_err (np_max_len (concat (map (map length) (remove_short_long balanced))))
             (\<lambda>longest. classes_loop detect (resolve_timesteps timesteps stepsize longest)
                           stepsize th 0 (remove_short_long balanced) \<lparr>data = [], labels = []\<rparr>)"
  using assms by (auto simp: preprocess_def Let_def)

lemma concat_lengths_Nil: "concat (map (map length) xss) = [] \<longleftrightarrow> concat xss = []"
  by (induction xss) auto

lemma preprocess_no_class:
  assumes "truthy timesteps \<or> truthy stepsize"
  shows "preprocess detect permutation [] timesteps stepsize th seed
           = Inl (ValueError ''min() arg is an empty sequence'')"
  using assms by (auto simp: preprocess_def py_min_def)

lemma preprocess_no_event:
  assumes "truthy timesteps \<or> truthy stepsize"
    and "py_min (map length raw_data) = Inr m"
    and "balance_loop permutation seed m 0 raw_data = Inr balanced"
    and "concat (remove_short_long balanced) = []"
  shows "preprocess detect permutation raw_data timesteps stepsize th seed
           = Inl (ValueError ''zero-size array to reduction operation maximum which has no identity'')"
proof -
  from assms(4) have "concat (map (map length) (remove_short_long balanced)) = []"
    by (simp only: concat_lengths_Nil)
  then show ?thesis
    unfolding preprocess_after_balancing [OF assms(1-3)] by (simp add: np_max_len_def)
qed

lemma preprocess_some_event:
  assumes "truthy timesteps \<or> truthy stepsize"
    and "py_min (map length raw_data) = Inr m"
    and "balance_loop permutation seed m 0 raw_data = Inr balanced"
    and "concat (remove_short_long balanced) \<noteq> []"
    and "detector_in_range detect"
  shows "\<exists>d. preprocess detect permutation raw_data timesteps stepsize th seed = Inr d
             \<and> labels d = concat (map (\<lambda>(i, events). replicate (length events) i)
                   (zip [0 ..< length (remove_short_long balanced)] (remove_short_long balanced)))
             \<and> length (data d) = length (concat (remove_short_long balanced))"
proof -
  let ?lens = "concat (map (map length) (remove_short_long balanced))"
  from assms(4) have "?lens \<noteq> []" by (simp only: concat_lengths_Nil) simp
  then obtain longest where l: "np_max_len ?lens = Inr longest"
    by (simp add: np_max_len_def)
  let ?T = "resolve_timesteps timesteps stepsize longest"
  from assms(1) have "?T \<noteq> 0 \<or> truthy stepsize"
    by (auto simp: resolve_timesteps_def truthy_def split: option.splits)
  from classes_loop_total [OF assms(5) this, of th 0 "remove_short_long balanced"
      "\<lparr>data = [], labels = []\<rparr>"]
  obtain d where d: "classes_loop detect ?T stepsize th 0 (remove_short_long balanced)
      \<lparr>data = [], labels = []\<rparr> = Inr d"
    "labels d = concat (map (\<lambda>(i, events). replicate (length events) i)
                   (zip [0 ..< length (remove_short_long balanced)] (remove_short_long balanced)))"
    "length (data d) = length (concat (remove_short_long balanced))"
    by auto
  have "preprocess detect permutation raw_data timesteps stepsize th seed = Inr d"
    unfolding preprocess_after_balancing [OF assms(1-3)] using l d(1) by simp
  with d(2,3) show ?thesis by blast
qed

text \<open>
  Claim C7, as amended. With one of \<open>timesteps\<close> and \<open>stepsize\<close> given, preparation
  raises a ValueError when there is no class at all, and when no event of any class is
  left after balancing and filtering. When some event is left, preparation returns a
  dataset even if some class has lost all of its events: such a class contributes no
  sample.
\<close>

theorem preprocess_empty_dataset:
  assumes "truthy timesteps \<or> truthy stepsize"
    and "generator_permutes permutation"
    and "detector_in_range detect"
  shows "preprocess detect permutation [] timesteps stepsize extrema_th seed
           = Inl (ValueError ''min() arg is an empty sequence'')
         \<and> (raw_data \<noteq> [] \<longrightarrow>
              (\<exists>m balanced.
                  py_min (map length raw_data) = Inr m
                  \<and> balance_loop permutation seed m 0 raw_data = Inr balanced
                  \<and> (concat (remove_short_long balanced) = [] \<longrightarrow>
                       preprocess detect permutation raw_data timesteps stepsize extrema_th seed
                         = Inl (ValueError
                             ''zero-size array to reduction operation maximum which has no identity''))
                  \<and> (concat (remove_short_long balanced) \<noteq> [] \<longrightarrow>
                       (\<exists>d. preprocess detect permutation raw_data timesteps stepsize extrema_th seed
                              = Inr d
                            \<and> labels d = concat (map (\<lambda>(i, events). replicate (length events) i)
                                  (zip [0 ..< length (remove_short_long balanced)]
                                       (remove_short_long balanced)))
                            \<and> length (data d) = length (concat (remove_short_long balanced))))))"
proof (intro conjI impI)
  show "preprocess detect permutation [] timesteps stepsize extrema_th seed
           = Inl (ValueError ''min() arg is an empty sequence'')"
    using assms(1) by (rule preprocess_no_class)
next
  assume ne: "raw_data \<noteq> []"
  then obtain m where m: "py_min (map length raw_data) = Inr m"
    by (simp add: py_min_def)
  from balance_loop_total [OF assms(2), of seed m 0 raw_data]
  obtain balanced where b: "balance_loop permutation seed m 0 raw_data = Inr balanced"
    by blast
  from preprocess_no_event [OF assms(1) m b, of detect extrema_th]
    preprocess_some_event [OF assms(1) m b _ assms(3), of extrema_th] m b
  show "\<exists>m balanced.
          py_min (map length raw_data) = Inr m
          \<and> balance_loop permutation seed m 0 raw_data = Inr balanced
          \<and> (concat (remove_short_long balanced) = [] \<longrightarrow>
               preprocess detect permutation raw_data timesteps stepsize extrema_th seed
                 = Inl (ValueError
                     ''zero-size array to reduction operation maximum which has no identity''))
          \<and> (concat (remove_short_long balanced) \<noteq> [] \<longrightarrow>
               (\<exists>d. preprocess detect permutation raw_data timesteps stepsize extrema_th seed
                      = Inr d
                    \<and> labels d = concat (map (\<lambda>(i, events). replicate (length events) i)
                          (zip [0 ..< length (remove_short_long balanced)]
                               (remove_short_long balanced)))
                    \<and> length (data d) = length (concat (remove_short_long balanced))))"
    by blast
qed

lemma identity_permutation_permutes: "generator_permutes identity_permutation"
  by (simp add: generator_permutes_def identity_permutation_def)

theorem preprocess_empty_dataset_witness:
  "preprocess detect_none identity_permutation [] (Some 1) None 0 42
     = Inl (ValueError ''min() arg is an empty sequence'')
   \<and> preprocess detect_none identity_permutation [[replicate 50 (0, 0)]] (Some 1) None 0 42
     = Inl (ValueError ''zero-size array to reduction operation maximum which has no identity'')
   \<and> map_sum id labels
       (preprocess detect_none identity_permutation [[replicate 51 (0, 0)]] (Some 1) None 0 42)
     = Inr [0]"
proof -
  have cfg: "truthy (Some 1) \<or> truthy None" by (simp add: truthy_def)
  note inst = preprocess_empty_dataset [OF cfg identity_permutation_permutes detect_none_in_range,
      of 0 42]
  have bal: "balance_loop identity_permutation 42 1 0 [[ev]] = Inr [[ev]]" for ev :: event
    by (simp add: np_take_def identity_permutation_def)
  have mn: "py_min (map length [[ev]]) = Inr 1" for ev :: event
    by (simp add: py_min_def)
  from inst [of "[[replicate 50 (0, 0)]]"]
  have a: "preprocess detect_none identity_permutation [] (Some 1) None 0 42
     = Inl (ValueError ''min() arg is an empty sequence'')" by blast
  have b: "preprocess detect_none identity_permutation [[replicate 50 (0, 0)]] (Some 1) None 0 42
     = Inl (ValueError ''zero-size array to reduction operation maximum which has no identity'')"
  proof -
    from inst [of "[[replicate 50 (0, 0)]]"]
    obtain m balanced where mb: "py_min (map length [[replicate 50 (0 :: real, 0 :: real)]]) = Inr m"
      "balance_loop identity_permutation 42 m 0 [[replicate 50 (0, 0)]] = Inr balanced"
      "concat (remove_short_long balanced) = [] \<longrightarrow>
         preprocess detect_none identity_permutation [[replicate 50 (0, 0)]] (Some 1) None 0 42
           = Inl (ValueError
               ''zero-size array to reduction operation maximum which has no identity'')"
      by blast
    from mb(1) mn have "m = 1" by simp
    with mb(2) bal have "balanced = [[replicate 50 (0, 0)]]" by simp
    then have "concat (remove_short_long balanced) = []"
      by (simp add: remove_short_long_filter within_duration_def)
    with mb(3) show ?thesis by blast
  qed
  have c: "map_sum id labels
       (preprocess detect_none identity_permutation [[replicate 51 (0, 0)]] (Some 1) None 0 42)
     = Inr [0]"
  proof -
    from inst [of "[[replicate 51 (0, 0)]]"]
    obtain m balanced where mb: "py_min (map length [[replicate 51 (0 :: real, 0 :: real)]]) = Inr m"
      "balance_loop identity_permutation 42 m 0 [[replicate 51 (0, 0)]] = Inr balanced"
      "concat (remove_short_long balanced) \<noteq> [] \<longrightarrow>
         (\<exists>d. preprocess detect_none identity_permutation [[replicate 51 (0, 0)]] (Some 1) None 0 42
                = Inr d
              \<and> labels d = concat (map (\<lambda>(i, events). replicate (length events) i)
                    (zip [0 ..< length (remove_short_long balanced)]
                         (remove_short_long balanced)))
              \<and> length (data d) = length (concat (remove_short_long balanced)))"
      by blast
    from mb(1) mn have "m = 1" by simp
    with mb(2) bal have bl: "balanced = [[replicate 51 (0, 0)]]" by simp
    then have rs: "remove_short_long balanced = [[replicate 51 (0, 0)]]"
      by (simp add: remove_short_long_filter within_duration_def)
    with mb(3) obtain d where
      "preprocess detect_none identity_permutation [[replicate 51 (0, 0)]] (Some 1) None 0 42 = Inr d"
      "labels d = concat (map (\<lambda>(i, events). replicate (length events) i)
                    (zip [0 ..< length (remove_short_long balanced)]
                         (remove_short_long balanced)))"
      by auto
    with rs show ?thesis by simp
  qed
  from a b c show ?thesis by blast
qed

text \<open>
  Claim C7, counterexample. Two classes, the first with one event of 51 samples and the
  second with one event of 50 samples, which the filter drops: preparation returns a
  dataset whose only label is \<open>0\<close>.
\<close>

theorem preprocess_empty_class_counterexample:
  "remove_short_long [[replicate 51 (0, 0)], [replicate 50 (0, 0)]] = [[replicate 51 (0, 0)], []]
   \<and> map_sum id labels
       (preprocess detect_none identity_permutation
          [[replicate 51 (0, 0)], [replicate 50 (0, 0)]] (Some 1) None 0 42)
     = Inr [0]"
proof -
  let ?raw = "[[replicate 51 (0, 0)], [replicate 50 (0, 0)]] :: event list list"
  have cfg: "truthy (Some 1) \<or> truthy None" by (simp add: truthy_def)
  have mn: "py_min (map length ?raw) = Inr 1" by (simp add: py_min_def)
  have bal: "balance_loop identity_permutation 42 1 0 ?raw = Inr ?raw"
    by (simp add: np_take_def identity_permutation_def)
  have flt: "remove_short_long ?raw = [[replicate 51 (0, 0)], []]"
    by (simp add: remove_short_long_filter within_duration_def)
  then have ne: "concat (remove_short_long ?raw) \<noteq> []" by simp
  from preprocess_some_event [OF cfg mn bal ne detect_none_in_range, of 0]
  obtain d where "preprocess detect_none identity_permutation ?raw (Some 1) None 0 42 = Inr d"
    "labels d = concat (map (\<lambda>(i, events). replicate (length events) i)
                   (zip [0 ..< length (remove_short_long ?raw)] (remove_short_long ?raw)))"
    by blast
  with flt show ?thesis by (simp add: upt_conv_Cons)
qed

subsection \<open>The filter inside the preparation\<close>

lemma bind_err_eq_Inr: "bind_err r f = Inr y \<longleftrightarrow> (\<exists>x. r = Inr x \<and> f x = Inr y)"
  by (cases r) simp_all

lemma events_loop_length:
  "events_loop detect timesteps stepsize th data_index events d = Inr d'
   \<Longrightarrow> length (data d') = length (data d) + length events"
proof (induction events arbitrary: d)
  case Nil
  then show ?case by simp
next
  case (Cons event rest)
  from Cons.prems obtain m where
    "events_loop detect timesteps stepsize th data_index rest
       (d\<lparr>data := data d @ [m], labels := labels d @ [data_index]\<rparr>) = Inr d'"
    by (auto simp: bind_err_eq_Inr)
  from Cons.IH [OF this] show ?case by simp
qed

lemma classes_loop_length:
  "classes_loop detect timesteps stepsize th k classes d = Inr d'
   \<Longrightarrow> length (data d') = length (data d) + length (concat classes)"
proof (induction classes arbitrary: k d)
  case Nil
  then show ?case by simp
next
  case (Cons events rest)
  from Cons.prems obtain d1 where
    d1: "events_loop detect timesteps stepsize th k events d = Inr d1"
    and r: "classes_loop detect timesteps stepsize th (Suc k) rest d1 = Inr d'"
    by (auto simp: bind_err_eq_Inr)
  from events_loop_length [OF d1] Cons.IH [OF r] show ?case by simp
qed

lemma preprocess_size:
  assumes "py_min (map length raw_data) = Inr m"
    and "balance_loop permutation seed m 0 raw_data = Inr balanced"
    and "preprocess detect permutation raw_data timesteps stepsize th seed = Inr d"
  shows "length (data d) = length (concat (map (filter within_duration) balanced))"
proof -
  from assms(3) have cfg: "truthy timesteps \<or> truthy stepsize"
    by (auto simp: preprocess_def split: if_splits)
  from assms(3) obtain longest where
    "classes_loop detect (resolve_timesteps timesteps stepsize longest) stepsize th 0
       (remove_short_long balanced) \<lparr>data = [], labels = []\<rparr> = Inr d"
    unfolding preprocess_after_balancing [OF cfg assms(1,2)]
    by (auto simp: bind_err_eq_Inr)
  from classes_loop_length [OF this] show ?thesis
    by (simp add: remove_short_long_filter)
qed

text \<open>
  Claim C5. The filter loop keeps exactly the events of more than 50 and fewer than
  10000 samples, in their order: an event of 50 or of 10000 samples is dropped, one of
  51 or of 9999 samples is kept. The bounds are constants of the loop, and no argument
  of \<open>preprocess\<close> reaches them: whatever the arguments, a dataset that
  \<open>preprocess\<close> returns has one entry per balanced event within these bounds.
\<close>

theorem duration_filter:
  "normal_events_loop b_data [] = filter (\<lambda>event. 50 < length event \<and> length event < 10000) b_data
   \<and> remove_short_long balanced_data
       = map (filter (\<lambda>event. 50 < length event \<and> length event < 10000)) balanced_data
   \<and> (\<forall>event. event \<in> set (normal_events_loop b_data [])
          \<longleftrightarrow> event \<in> set b_data \<and> 50 < length event \<and> length event < 10000)
   \<and> (\<forall>event. length event = 50 \<or> length event = 10000
          \<longrightarrow> event \<notin> set (normal_events_loop b_data []))
   \<and> (\<forall>event \<in> set b_data. length event = 51 \<or> length event = 9999
          \<longrightarrow> event \<in> set (normal_events_loop b_data []))
   \<and> (\<forall>detect permutation raw_data timesteps stepsize extrema_th seed m balanced d.
          py_min (map length raw_data) = Inr m
          \<and> balance_loop permutation seed m 0 raw_data = Inr balanced
          \<and> preprocess detect permutation raw_data timesteps stepsize extrema_th seed = Inr d
          \<longrightarrow> length (data d)
              = length (concat (map (filter (\<lambda>event. 50 < length event \<and> length event < 10000))
                                    balanced)))"
proof -
  have wd: "within_duration = (\<lambda>event. 50 < length event \<and> length event < 10000)"
    by (rule ext) (simp add: within_duration_def)
  have "\<forall>detect permutation raw_data timesteps stepsize extrema_th seed m balanced d.
          py_min (map length raw_data) = Inr m
          \<and> balance_loop permutation seed m 0 raw_data = Inr balanced
          \<and> preprocess detect permutation raw_data timesteps stepsize extrema_th seed = Inr d
          \<longrightarrow> length (data d) = length (concat (map (filter within_duration) balanced))"
    using preprocess_size by blast
  then show ?thesis
    unfolding normal_events_loop_filter remove_short_long_filter wd
    by auto
qed

theorem duration_filter_witness:
  "normal_events_loop
     [replicate 50 (0, 0), replicate 51 (0, 0), replicate 9999 (0, 0), replicate 10000 (0, 0)] []
   = [replicate 51 (0, 0), replicate 9999 (0, 0)]
   \<and> length (replicate 50 (0 :: real, 0 :: real)) = 50
   \<and> replicate 50 (0, 0) \<notin> set (normal_events_loop
         [replicate 50 (0, 0), replicate 51 (0, 0), replicate 9999 (0, 0), replicate 10000 (0, 0)] [])
   \<and> length (replicate 51 (0 :: real, 0 :: real)) = 51
   \<and> replicate 51 (0, 0) \<in> set (normal_events_loop
         [replicate 50 (0, 0), replicate 51 (0, 0), replicate 9999 (0, 0), replicate 10000 (0, 0)] [])
   \<and> map_sum id (\<lambda>d. length (data d))
        (preprocess detect_none identity_permutation
           [[replicate 50 (0, 0), replicate 51 (0, 0)]] (Some 1) None 0 42)
      = Inr 1"
proof -
  let ?b = "[replicate 50 (0, 0), replicate 51 (0, 0), replicate 9999 (0, 0),
             replicate 10000 (0, 0)] :: event list"
  let ?raw = "[[replicate 50 (0, 0), replicate 51 (0, 0)]] :: event list list"
  note inst = duration_filter [of ?b "[]"]
  have cfg: "truthy (Some 1) \<or> truthy None" by (simp add: truthy_def)
  have mn: "py_min (map length ?raw) = Inr 2" by (simp add: py_min_def)
  have bal: "balance_loop identity_permutation 42 2 0 ?raw = Inr ?raw"
    by (simp add: np_take_def identity_permutation_def upt_conv_Cons)
  have flt: "remove_short_long ?raw = [[replicate 51 (0, 0)]]"
    by (simp add: remove_short_long_filter within_duration_def)
  then have ne: "concat (remove_short_long ?raw) \<noteq> []" by simp
  from preprocess_some_event [OF cfg mn bal ne detect_none_in_range, of 0]
  obtain d where d: "preprocess detect_none identity_permutation ?raw (Some 1) None 0 42 = Inr d"
    by blast
  from inst mn bal d
  have "length (data d)
          = length (concat (map (filter (\<lambda>event. 50 < length event \<and> length event < 10000)) ?raw))"
    by blast
  then have "length (data d) = 1" by simp
  with d have c: "map_sum id (\<lambda>d. length (data d))
        (preprocess detect_none identity_permutation ?raw (Some 1) None 0 42) = Inr 1"
    by simp
  from inst have "normal_events_loop ?b [] = [replicate 51 (0, 0), replicate 9999 (0, 0)]"
    by simp
  with c show ?thesis by simp
qed

end
